theory Spec2Isabelle
  imports
    Complex_Main
    "HOL-Library.AList"
    "HOL-Library.Multiset"
    "HOL-Library.Char_ord"
    "HOL-Library.List_Lexorder"
begin

section \<open>The persona registry of git-switch\<close>

text \<open>
  The program keeps named git identities (``personas'') in a JSON file. Class
  \<^verbatim>\<open>Manager\<close> loads the file on \<^verbatim>\<open>__enter__\<close>, offers the registry operations and
  writes the file back on \<^verbatim>\<open>__exit__\<close>. This theory embeds the two dataclasses and
  every method of \<^verbatim>\<open>Manager\<close>.

  Conventions of the embedding:
  \<^item> a Python \<^verbatim>\<open>str\<close> is a \<^typ>\<open>string\<close>; \<^verbatim>\<open>sorted\<close> compares strings
    lexicographically by character code, as the order on \<^typ>\<open>string\<close> does;
  \<^item> a Python \<^verbatim>\<open>dict\<close> is an association list in insertion order with pairwise
    different keys: \<^verbatim>\<open>d[k] = v\<close> replaces the value in place when \<open>k\<close> is present
    and appends otherwise, \<^verbatim>\<open>del d[k]\<close> removes the entry;
  \<^item> an exception is a value of type \<open>exn\<close>; a method that can raise returns
    \<open>exn + result\<close>, and a method that also mutates returns the registry after
    the call, so that what a failed call leaves behind is part of the model;
  \<^item> objects are values. \<^verbatim>\<open>rename_persona\<close> mutates the stored object in place;
    under the name-is-key invariant two keys never hold the same object, so no
    operation of the registry observes the sharing.
\<close>

subsection \<open>Data model\<close>

text \<open>
  A dataclass does not check its annotations: \<^verbatim>\<open>Persona(**d)\<close> stores whatever
  values \<open>d\<close> holds. The records therefore take the type of the stored values as a
  parameter. The annotated program (\<^verbatim>\<open>persona_name: str\<close>,
  \<^verbatim>\<open>Dict[str, Persona]\<close>, \<^verbatim>\<open>current_persona\<close> a \<^verbatim>\<open>str\<close> or \<^verbatim>\<open>None\<close>) is the
  instance \<open>registry\<close>; what \<^verbatim>\<open>__enter__\<close> builds from a parsed file is the
  instance \<open>loaded\<close>, over JSON values.
\<close>

record 'a persona =
  persona_name :: 'a
  commit_name :: 'a
  email :: 'a
  ssh_key_path :: 'a

record ('c, 'a) config =
  current_persona :: 'c
  personas :: "('a \<times> 'a persona) list"

type_synonym registry = "(string option, string) config"

datatype exn =
    KeyError string
  | ValueError string
  | TypeError
  | AttributeError
  | FileNotFoundError
  | JSONDecodeError

subsection \<open>Queries and updates\<close>

definition has_persona :: "string \<Rightarrow> registry \<Rightarrow> bool" where
  "has_persona n c = (map_of (personas c) n \<noteq> None)"

definition get_persona :: "string \<Rightarrow> registry \<Rightarrow> exn + string persona" where
  "get_persona n c =
     (case map_of (personas c) n of
        None \<Rightarrow> Inl (KeyError n)
      | Some p \<Rightarrow> Inr p)"

definition set_persona :: "string persona \<Rightarrow> registry \<Rightarrow> registry" where
  "set_persona p c = c\<lparr>personas := AList.update (persona_name p) p (personas c)\<rparr>"

text \<open>
  \<^verbatim>\<open>os.system(line)\<close> raises \<^verbatim>\<open>ValueError\<close> when the line holds a NUL character
  and otherwise hands the line to the shell; the exit status it returns is not
  used by the caller.
\<close>

definition os_system :: "string \<Rightarrow> exn + unit" where
  "os_system line =
     (if CHR 0x00 \<in> set line then Inl (ValueError ''embedded null byte'') else Inr ())"

text \<open>
  \<^verbatim>\<open>switch_persona\<close> raises \<^verbatim>\<open>ValueError\<close> before it touches anything when the
  name is not stored. Otherwise it stores the name and then makes three calls of
  \<^verbatim>\<open>os.system\<close>, one statement after the other, so an exception of one call leaves
  the later ones out. The result is the outcome together with the lines that
  reached the shell, in the order issued, and the registry after the call.
  \<open>CHR 0x22\<close> is the double quote of the f-strings.
\<close>

definition switch_persona ::
  "string \<Rightarrow> bool \<Rightarrow> registry \<Rightarrow> ((exn + unit) \<times> string list) \<times> registry" where
  "switch_persona n g c =
     (case map_of (personas c) n of
        None \<Rightarrow> ((Inl (ValueError (''Persona '' @ n @ '' not found'')), []), c)
      | Some p \<Rightarrow>
          (let c' = c\<lparr>current_persona := Some n\<rparr>;
               flag = (if g then ''--global'' else []);
               line1 = ''git config '' @ flag @ '' user.name '' @ [CHR 0x22]
                         @ commit_name p @ [CHR 0x22];
               line2 = ''git config '' @ flag @ '' user.email '' @ [CHR 0x22]
                         @ email p @ [CHR 0x22];
               line3 = ''git config '' @ flag @ '' core.sshCommand '' @ [CHR 0x22]
                         @ ''ssh -i '' @ ssh_key_path p @ [CHR 0x22]
           in (case os_system line1 of
                 Inl e \<Rightarrow> ((Inl e, []), c')
               | Inr _ \<Rightarrow>
                   (case os_system line2 of
                      Inl e \<Rightarrow> ((Inl e, [line1]), c')
                    | Inr _ \<Rightarrow>
                        (case os_system line3 of
                           Inl e \<Rightarrow> ((Inl e, [line1, line2]), c')
                         | Inr _ \<Rightarrow> ((Inr (), [line1, line2, line3]), c'))))))"

text \<open>
  \<^verbatim>\<open>not self.config.current_persona\<close> holds for \<^verbatim>\<open>None\<close> and for the empty string.
  Any other name is looked up with \<^verbatim>\<open>personas[...]\<close>, which raises \<^verbatim>\<open>KeyError\<close> on a
  missing key.
\<close>

definition get_current_persona :: "registry \<Rightarrow> exn + string persona option" where
  "get_current_persona c =
     (case current_persona c of
        None \<Rightarrow> Inr None
      | Some n \<Rightarrow>
          (if n = [] then Inr None
           else (case map_of (personas c) n of
                   None \<Rightarrow> Inl (KeyError n)
                 | Some p \<Rightarrow> Inr (Some p))))"

definition rename_persona :: "string \<Rightarrow> string \<Rightarrow> registry \<Rightarrow> (exn + unit) \<times> registry" where
  "rename_persona old_name new_name c =
     (case map_of (personas c) old_name of
        None \<Rightarrow> (Inl (KeyError old_name), c)
      | Some p \<Rightarrow>
          (Inr (),
           c\<lparr>personas :=
                AList.update new_name (p\<lparr>persona_name := new_name\<rparr>)
                  (AList.delete old_name (personas c))\<rparr>))"

definition remove_persona :: "string \<Rightarrow> registry \<Rightarrow> (exn + unit) \<times> registry" where
  "remove_persona n c =
     (if map_of (personas c) n = None then (Inl (KeyError n), c)
      else (Inr (), c\<lparr>personas := AList.delete n (personas c)\<rparr>))"

text \<open>\<^verbatim>\<open>sorted\<close> is stable, and so is \<^const>\<open>sort_key\<close>.\<close>

definition list_personas :: "registry \<Rightarrow> string persona list" where
  "list_personas c = sort_key persona_name (map snd (personas c))"

subsection \<open>Parsed JSON\<close>

text \<open>
  The values \<^verbatim>\<open>json.load\<close> returns. An object is a Python \<^verbatim>\<open>dict\<close> with string
  keys (of a repeated key the parser keeps the last value, so the keys of a
  \<open>JDict\<close> are taken to be different). A float is given by its exact value;
  \<open>JInfinity True\<close> is \<^verbatim>\<open>inf\<close>, \<open>JInfinity False\<close> is \<^verbatim>\<open>-inf\<close>.
\<close>

datatype json =
    JNull
  | JBool bool
  | JInt int
  | JFloat rat
  | JInfinity bool
  | JNaN
  | JStr string
  | JList "json list"
  | JDict "(string \<times> json) list"

text \<open>
  The backing file as \<^verbatim>\<open>__enter__\<close> meets it: \<open>Missing\<close> when \<^verbatim>\<open>open\<close> fails,
  \<open>NotJson\<close> when \<^verbatim>\<open>json.load\<close> rejects the content, \<open>Json j\<close> when it parses
  to \<open>j\<close>. \<^verbatim>\<open>json.dump\<close> followed by \<^verbatim>\<open>json.load\<close> returns the tree it was given
  when that is built from \<^verbatim>\<open>None\<close>, strings and dicts with string keys, which is
  all that \<^verbatim>\<open>__exit__\<close> writes; the text of the file is not modelled further.
\<close>

datatype backing_file = Missing | NotJson | Json json

type_synonym loaded = "(json, json) config"

text \<open>\<^verbatim>\<open>d[key]\<close> with a string key, and \<^verbatim>\<open>d.values()\<close>.\<close>

fun subscript :: "json \<Rightarrow> string \<Rightarrow> exn + json" where
  "subscript (JDict kvs) k =
     (case map_of kvs k of None \<Rightarrow> Inl (KeyError k) | Some v \<Rightarrow> Inr v)"
| "subscript _ k = Inl TypeError"

fun dict_values :: "json \<Rightarrow> exn + json list" where
  "dict_values (JDict kvs) = Inr (map snd kvs)"
| "dict_values _ = Inl AttributeError"

text \<open>
  \<^verbatim>\<open>Persona(**persona_dict)\<close>: a \<^verbatim>\<open>TypeError\<close> unless the argument is a mapping
  whose keys are exactly the four field names. The values are stored unchecked.
\<close>

definition field_names :: "string list" where
  "field_names = [''persona_name'', ''commit_name'', ''email'', ''ssh_key_path'']"

fun Persona_kwargs :: "json \<Rightarrow> exn + json persona" where
  "Persona_kwargs (JDict kvs) =
     (if list_all (\<lambda>k. k \<in> set field_names) (map fst kvs) then
        (case map_of kvs ''persona_name'' of None \<Rightarrow> Inl TypeError | Some a \<Rightarrow>
         (case map_of kvs ''commit_name'' of None \<Rightarrow> Inl TypeError | Some b \<Rightarrow>
          (case map_of kvs ''email'' of None \<Rightarrow> Inl TypeError | Some e \<Rightarrow>
           (case map_of kvs ''ssh_key_path'' of None \<Rightarrow> Inl TypeError | Some s \<Rightarrow>
              Inr \<lparr>persona_name = a, commit_name = b, email = e, ssh_key_path = s\<rparr>))))
      else Inl TypeError)"
| "Persona_kwargs _ = Inl TypeError"

text \<open>
  Keys of a Python dict are compared with \<^verbatim>\<open>==\<close>: \<^verbatim>\<open>True\<close>, \<^verbatim>\<open>1\<close> and \<^verbatim>\<open>1.0\<close>
  are one key, every other hashable JSON value equals only itself. Lists and
  dicts are not hashable.
\<close>

fun num_val :: "json \<Rightarrow> rat option" where
  "num_val (JBool b) = Some (if b then 1 else 0)"
| "num_val (JInt i) = Some (of_int i)"
| "num_val (JFloat r) = Some r"
| "num_val _ = None"

definition py_eq :: "json \<Rightarrow> json \<Rightarrow> bool" where
  "py_eq a b = (case num_val a of Some x \<Rightarrow> num_val b = Some x | None \<Rightarrow> a = b)"

fun hashable :: "json \<Rightarrow> bool" where
  "hashable (JList _) = False"
| "hashable (JDict _) = False"
| "hashable _ = True"

text \<open>
  \<^verbatim>\<open>d[k] = v\<close> on a dict with such keys: the first key object stays, its value
  is replaced; a new key goes to the end.
\<close>

fun py_update :: "json \<Rightarrow> 'v \<Rightarrow> (json \<times> 'v) list \<Rightarrow> (json \<times> 'v) list" where
  "py_update k v [] = [(k, v)]"
| "py_update k v (q # qs) =
     (if py_eq (fst q) k then (fst q, v) # qs else q # py_update k v qs)"

definition setitem :: "json \<Rightarrow> 'v \<Rightarrow> (json \<times> 'v) list \<Rightarrow> exn + (json \<times> 'v) list" where
  "setitem k v d = (if hashable k then Inr (py_update k v d) else Inl TypeError)"

subsection \<open>Load and save\<close>

text \<open>The loop of \<^verbatim>\<open>__enter__\<close> over \<^verbatim>\<open>_dict['personas'].values()\<close>.\<close>

fun load_personas ::
  "json list \<Rightarrow> (json \<times> json persona) list \<Rightarrow> exn + (json \<times> json persona) list" where
  "load_personas [] d = Inr d"
| "load_personas (persona_dict # rest) d =
     (case Persona_kwargs persona_dict of
        Inl e \<Rightarrow> Inl e
      | Inr p \<Rightarrow>
          (case setitem (persona_name p) p d of
             Inl e \<Rightarrow> Inl e
           | Inr d' \<Rightarrow> load_personas rest d'))"

text \<open>The body of the \<^verbatim>\<open>try\<close>, statement by statement.\<close>

definition try_load :: "backing_file \<Rightarrow> exn + loaded" where
  "try_load f =
     (case f of
        Missing \<Rightarrow> Inl FileNotFoundError
      | NotJson \<Rightarrow> Inl JSONDecodeError
      | Json d \<Rightarrow>
          (case subscript d ''current_persona'' of
             Inl e \<Rightarrow> Inl e
           | Inr cur \<Rightarrow>
               (case subscript d ''personas'' of
                  Inl e \<Rightarrow> Inl e
                | Inr ps \<Rightarrow>
                    (case dict_values ps of
                       Inl e \<Rightarrow> Inl e
                     | Inr vs \<Rightarrow>
                         (case load_personas vs [] of
                            Inl e \<Rightarrow> Inl e
                          | Inr m \<Rightarrow> Inr \<lparr>current_persona = cur, personas = m\<rparr>)))))"

text \<open>
  \<^verbatim>\<open>__enter__\<close>: every exception of the body is caught and replaced by
  \<^verbatim>\<open>Config(None, {})\<close>.
\<close>

definition enter :: "backing_file \<Rightarrow> loaded" where
  "enter f =
     (case try_load f of
        Inl e \<Rightarrow> \<lparr>current_persona = JNull, personas = []\<rparr>
      | Inr c \<Rightarrow> c)"

text \<open>
  \<^verbatim>\<open>__exit__\<close> writes \<^verbatim>\<open>dataclasses.asdict(self.config)\<close>: the field names of the
  dataclasses become the keys, in the order of declaration.
\<close>

definition asdict_persona :: "string persona \<Rightarrow> json" where
  "asdict_persona p =
     JDict [(''persona_name'', JStr (persona_name p)),
            (''commit_name'', JStr (commit_name p)),
            (''email'', JStr (email p)),
            (''ssh_key_path'', JStr (ssh_key_path p))]"

definition json_of_name :: "string option \<Rightarrow> json" where
  "json_of_name v = (case v of None \<Rightarrow> JNull | Some s \<Rightarrow> JStr s)"

definition asdict :: "registry \<Rightarrow> json" where
  "asdict c =
     JDict [(''current_persona'', json_of_name (current_persona c)),
            (''personas'', JDict (map (\<lambda>(k, p). (k, asdict_persona p)) (personas c)))]"

definition exit :: "registry \<Rightarrow> backing_file" where
  "exit c = Json (asdict c)"

subsection \<open>Registries among the loaded values\<close>

text \<open>
  A registry of the annotated types, seen as the Python values it consists of.
\<close>

definition persona_value :: "string persona \<Rightarrow> json persona" where
  "persona_value p =
     \<lparr>persona_name = JStr (persona_name p), commit_name = JStr (commit_name p),
      email = JStr (email p), ssh_key_path = JStr (ssh_key_path p)\<rparr>"

definition registry_value :: "registry \<Rightarrow> loaded" where
  "registry_value c =
     \<lparr>current_persona = json_of_name (current_persona c),
      personas = map (\<lambda>(k, p). (JStr k, persona_value p)) (personas c)\<rparr>"

subsection \<open>Invariants\<close>

text \<open>
  The record stored under a key carries that key as its name; for a loaded
  registry the comparison is the one of Python. \<open>dict_keys_ok\<close> says that the
  association list is a dict: no key twice.
\<close>

definition name_is_key :: "registry \<Rightarrow> bool" where
  "name_is_key c = list_all (\<lambda>(k, p). persona_name p = k) (personas c)"

definition loaded_name_is_key :: "loaded \<Rightarrow> bool" where
  "loaded_name_is_key c = list_all (\<lambda>(k, p). py_eq k (persona_name p)) (personas c)"

definition dict_keys_ok :: "registry \<Rightarrow> bool" where
  "dict_keys_ok c = distinct (map fst (personas c))"

subsection \<open>The shell and the external tool\<close>









subsection \<open>Field names of a parsed file\<close>

text \<open>
  The top-level field names of a parsed file; a value that is no object has none,
  so it lacks every field.
\<close>

fun object_keys :: "json \<Rightarrow> string list" where
  "object_keys (JDict kvs) = map fst kvs"
| "object_keys _ = []"

definition lacks_field :: "json \<Rightarrow> string \<Rightarrow> bool" where
  "lacks_field j k = (k \<notin> set (object_keys j))"

subsection \<open>Sample data\<close>

definition mk :: "string \<Rightarrow> string persona" where
  "mk n = \<lparr>persona_name = n, commit_name = ''Ann '' @ n, email = n @ ''@example.org'',
           ssh_key_path = ''~/.ssh/'' @ n\<rparr>"

definition no_personas :: registry where
  "no_personas = \<lparr>current_persona = None, personas = []\<rparr>"

definition work_home :: registry where
  "work_home =
     \<lparr>current_persona = Some ''work'',
      personas = [(''work'', mk ''work''), (''home'', mk ''home'')]\<rparr>"

definition zeta_alpha_mike :: registry where
  "zeta_alpha_mike =
     \<lparr>current_persona = None,
      personas = [(''zeta'', mk ''zeta''), (''alpha'', mk ''alpha''), (''mike'', mk ''mike'')]\<rparr>"

definition dangling :: registry where
  "dangling = \<lparr>current_persona = Some ''work'', personas = [(''home'', mk ''home'')]\<rparr>"



definition unnamed_current :: registry where
  "unnamed_current = \<lparr>current_persona = Some [], personas = [([], mk [])]\<rparr>"

section \<open>Properties\<close>

subsection \<open>Current persona\<close>

text \<open>
  C10. When \<open>current_persona\<close> is the empty string, \<open>get_current_persona\<close> returns
  \<^verbatim>\<open>None\<close> and looks nothing up, also when a persona is stored under the empty
  string.
\<close>

theorem get_current_persona_empty_name:
  "current_persona c = Some [] \<Longrightarrow> get_current_persona c = Inr None"
  by (simp add: get_current_persona_def)

theorem get_current_persona_empty_name_witness:
  "current_persona unnamed_current = Some []
   \<and> has_persona [] unnamed_current
   \<and> get_current_persona unnamed_current = Inr None"
  using get_current_persona_empty_name [of unnamed_current]
  by (simp add: unnamed_current_def has_persona_def)

text \<open>
  C1. The claim is that \<open>get_current_persona\<close> does not raise when
  \<open>current_persona\<close> names a persona that is no longer stored. The method looks
  the name up without a check and raises \<^verbatim>\<open>KeyError\<close>. The registry below is the
  one left by adding \<open>work\<close> and \<open>home\<close>, switching to \<open>work\<close> and removing
  \<open>work\<close>.
\<close>

theorem get_current_persona_dangling_raises:
  "dangling =
     snd (remove_persona ''work''
       (snd (switch_persona ''work'' False
         (set_persona (mk ''home'') (set_persona (mk ''work'') no_personas)))))
   \<and> current_persona dangling = Some ''work''
   \<and> \<not> has_persona ''work'' dangling
   \<and> get_current_persona dangling = Inl (KeyError ''work'')"
  by (simp add: dangling_def remove_persona_def switch_persona_def os_system_def
      set_persona_def no_personas_def mk_def has_persona_def get_current_persona_def
      AList.delete_eq)

subsection \<open>Removing and listing\<close>

text \<open>
  C7. Removing a name that is not stored raises \<^verbatim>\<open>KeyError\<close>, and the registry
  after the failed call is the registry before it.
\<close>

theorem remove_persona_unknown:
  "\<not> has_persona n c \<Longrightarrow> remove_persona n c = (Inl (KeyError n), c)"
  by (simp add: has_persona_def remove_persona_def)

theorem remove_persona_unknown_witness:
  "\<not> has_persona ''nobody'' work_home
   \<and> remove_persona ''nobody'' work_home = (Inl (KeyError ''nobody''), work_home)"
proof -
  have h: "\<not> has_persona ''nobody'' work_home"
    by (simp add: has_persona_def work_home_def)
  from h remove_persona_unknown [OF h] show ?thesis by simp
qed

text \<open>
  C8. \<open>list_personas\<close> returns every stored persona, each as often as it is
  stored, in ascending lexicographic order of the names: \<open>alpha\<close>, \<open>mike\<close>,
  \<open>zeta\<close> for personas entered as \<open>zeta\<close>, \<open>alpha\<close>, \<open>mike\<close>, and the empty
  list for the empty registry.
\<close>

theorem list_personas_sorted:
  "sorted (map persona_name (list_personas c))
   \<and> mset (list_personas c) = mset (map snd (personas c))
   \<and> list_personas zeta_alpha_mike = [mk ''alpha'', mk ''mike'', mk ''zeta'']
   \<and> list_personas no_personas = []"
proof -
  have "list_personas zeta_alpha_mike = [mk ''alpha'', mk ''mike'', mk ''zeta'']"
    by (simp add: list_personas_def zeta_alpha_mike_def mk_def)
  moreover have "list_personas no_personas = []"
    by (simp add: list_personas_def no_personas_def)
  ultimately show ?thesis
    by (simp add: list_personas_def)
qed

subsection \<open>Switching\<close>







subsection \<open>Renaming\<close>

text \<open>
  C5, as stated, fails when the new name is the old one: the persona is stored
  under \<open>a\<close> after \<open>rename_persona a a\<close>.
\<close>

theorem rename_persona_same_name_counterexample:
  "get_persona ''work'' work_home = Inr (mk ''work'')
   \<and> fst (rename_persona ''work'' ''work'' work_home) = Inr ()
   \<and> has_persona ''work'' (snd (rename_persona ''work'' ''work'' work_home))"
  by (simp add: get_persona_def work_home_def rename_persona_def has_persona_def
      AList.delete_eq mk_def)

text \<open>
  C5, amended. When a persona is stored under \<open>a\<close> and \<open>b\<close> is a different
  name, \<open>rename_persona a b\<close> succeeds; afterwards nothing is stored under \<open>a\<close>,
  the record under \<open>b\<close> has the name \<open>b\<close> and the commit name, email and key
  path it had, and \<open>current_persona\<close> is what it was, so a current name \<open>a\<close>
  stays \<open>a\<close> and dangles.
\<close>

theorem rename_persona_moves_record:
  assumes "get_persona a c = Inr p" and "a \<noteq> b"
  shows "fst (rename_persona a b c) = Inr ()
    \<and> \<not> has_persona a (snd (rename_persona a b c))
    \<and> has_persona b (snd (rename_persona a b c))
    \<and> get_persona b (snd (rename_persona a b c)) =
        Inr \<lparr>persona_name = b, commit_name = commit_name p, email = email p,
             ssh_key_path = ssh_key_path p\<rparr>
    \<and> current_persona (snd (rename_persona a b c)) = current_persona c"
proof -
  from assms(1) have look: "map_of (personas c) a = Some p"
    by (simp add: get_persona_def split: option.splits)
  then have r: "rename_persona a b c =
      (Inr (), c\<lparr>personas := AList.update b (p\<lparr>persona_name := b\<rparr>)
                               (AList.delete a (personas c))\<rparr>)"
    by (simp add: rename_persona_def)
  show ?thesis using assms(2)
    by (simp add: r has_persona_def get_persona_def AList.update_conv' AList.delete_conv')
qed

theorem rename_persona_moves_record_witness:
  "get_persona ''work'' work_home = Inr (mk ''work'') \<and> ''work'' \<noteq> ''job''
   \<and> fst (rename_persona ''work'' ''job'' work_home) = Inr ()
   \<and> \<not> has_persona ''work'' (snd (rename_persona ''work'' ''job'' work_home))
   \<and> has_persona ''job'' (snd (rename_persona ''work'' ''job'' work_home))
   \<and> get_persona ''job'' (snd (rename_persona ''work'' ''job'' work_home)) =
       Inr \<lparr>persona_name = ''job'', commit_name = ''Ann work'',
            email = ''work@example.org'', ssh_key_path = ''~/.ssh/work''\<rparr>
   \<and> current_persona (snd (rename_persona ''work'' ''job'' work_home)) = Some ''work''"
proof -
  have g: "get_persona ''work'' work_home = Inr (mk ''work'')"
    by (simp add: get_persona_def work_home_def)
  have d: "''work'' \<noteq> ''job''" by simp
  have cur: "current_persona work_home = Some ''work''"
    by (simp add: work_home_def)
  show ?thesis
    using g d cur rename_persona_moves_record [OF g d]
    by (simp add: mk_def)
qed

subsection \<open>Loading\<close>

text \<open>Keys that are strings are equal in Python exactly when they are the same string.\<close>

lemma py_eq_refl: "py_eq a a"
  by (simp add: py_eq_def split: option.splits)

lemma py_eq_JStr: "py_eq (JStr a) b \<longleftrightarrow> b = JStr a"
  by (auto simp: py_eq_def)

lemma py_update_fresh:
  "\<forall>q \<in> set d. \<not> py_eq (fst q) k \<Longrightarrow> py_update k v d = d @ [(k, v)]"
  by (induction d) auto

lemma Persona_kwargs_asdict: "Persona_kwargs (asdict_persona p) = Inr (persona_value p)"
  by (simp add: asdict_persona_def persona_value_def field_names_def)

text \<open>
  On the values that \<open>asdict\<close> writes the loop never raises; when the keys are
  different and each record is stored under its own name, it rebuilds the
  dictionary entry by entry.
\<close>

lemma load_personas_saved_ok:
  "\<exists>d'. load_personas (map (\<lambda>(k, p). asdict_persona p) ps) d = Inr d'"
proof (induction ps arbitrary: d)
  case Nil
  then show ?case by simp
next
  case (Cons kp ps)
  obtain k p where kp: "kp = (k, p)" by (cases kp)
  have "setitem (persona_name (persona_value p)) (persona_value p) d
      = Inr (py_update (persona_name (persona_value p)) (persona_value p) d)"
    by (simp add: setitem_def persona_value_def)
  with Cons.IH show ?case
    by (simp add: kp Persona_kwargs_asdict)
qed

lemma load_personas_saved:
  "distinct (map fst (acc @ ps)) \<Longrightarrow> list_all (\<lambda>(k, p). persona_name p = k) ps \<Longrightarrow>
   load_personas (map (\<lambda>(k, p). asdict_persona p) ps)
       (map (\<lambda>(k, p). (JStr k, persona_value p)) acc)
     = Inr (map (\<lambda>(k, p). (JStr k, persona_value p)) (acc @ ps))"
proof (induction ps arbitrary: acc)
  case Nil
  then show ?case by simp
next
  case (Cons kp ps)
  obtain k p where kp: "kp = (k, p)" by (cases kp)
  from Cons.prems kp have name: "persona_name p = k" by simp
  from Cons.prems kp have fresh: "k \<notin> fst ` set acc" by auto
  have step: "setitem (persona_name (persona_value p)) (persona_value p)
        (map (\<lambda>(k, p). (JStr k, persona_value p)) acc)
      = Inr (map (\<lambda>(k, p). (JStr k, persona_value p)) (acc @ [(k, p)]))"
    using fresh name
    by (subst setitem_def)
      (force simp: persona_value_def py_eq_JStr intro!: py_update_fresh)
  have d: "distinct (map fst ((acc @ [(k, p)]) @ ps))"
    using Cons.prems kp by simp
  have rest: "list_all (\<lambda>(k, p). persona_name p = k) ps"
    using Cons.prems by simp
  show ?case
    using Cons.IH [OF d rest]
    by (simp add: kp Persona_kwargs_asdict step)
qed

lemma enter_exit:
  assumes "dict_keys_ok c" and "name_is_key c"
  shows "enter (exit c) = registry_value c"
proof -
  have "load_personas (map snd (map (\<lambda>(k, p). (k, asdict_persona p)) (personas c))) []
      = Inr (map (\<lambda>(k, p). (JStr k, persona_value p)) (personas c))"
    using load_personas_saved [of "[]" "personas c"] assms
    by (simp add: dict_keys_ok_def name_is_key_def case_prod_unfold comp_def)
  then show ?thesis
    by (simp add: enter_def exit_def try_load_def asdict_def registry_value_def)
qed

lemma json_of_name_inj: "json_of_name a = json_of_name b \<Longrightarrow> a = b"
  by (auto simp: json_of_name_def split: option.splits)

lemma persona_value_inj: "persona_value p = persona_value q \<Longrightarrow> p = q"
  by (cases p, cases q) (simp add: persona_value_def)

lemma registry_value_inj:
  assumes "registry_value c' = registry_value c"
  shows "c' = c"
proof -
  have "inj (\<lambda>(k, p). (JStr k, persona_value p))"
    by (auto simp: inj_on_def dest: persona_value_inj)
  with assms have "personas c' = personas c"
    by (simp add: registry_value_def inj_map_eq_map)
  moreover from assms have "current_persona c' = current_persona c"
    by (simp add: registry_value_def json_of_name_inj)
  ultimately show ?thesis by simp
qed

lemma subscript_lacks:
  "lacks_field j k \<Longrightarrow> \<exists>e. subscript j k = Inl e"
  by (cases j) (auto simp: lacks_field_def map_of_eq_None_iff split: option.splits)

text \<open>
  C4, as stated, fails: the field of the file is \<open>current_persona\<close>. The file
  that \<open>exit\<close> writes for a registry with two personas has no field
  \<open>currentPersona\<close>, and loading it gives that registry, not the empty one.
\<close>

theorem enter_recovers_counterexample:
  "lacks_field (asdict work_home) ''currentPersona''
   \<and> enter (Json (asdict work_home)) = registry_value work_home
   \<and> registry_value work_home \<noteq> \<lparr>current_persona = JNull, personas = []\<rparr>"
  by (simp add: lacks_field_def asdict_def work_home_def enter_def try_load_def
      asdict_persona_def field_names_def setitem_def py_eq_def registry_value_def
      persona_value_def json_of_name_def mk_def)

text \<open>
  C4, amended. When the backing file cannot be opened, is not JSON, or is JSON
  that lacks the field \<open>personas\<close> or the field \<open>current_persona\<close>, \<open>enter\<close>
  returns the empty registry \<^verbatim>\<open>Config(None, {})\<close>. \<open>enter\<close> catches every
  exception of its body, so it returns a registry on every file.
\<close>

theorem enter_recovers:
  assumes "f = Missing \<or> f = NotJson
     \<or> (\<exists>j. f = Json j \<and> (lacks_field j ''personas'' \<or> lacks_field j ''current_persona''))"
  shows "enter f = registry_value no_personas
    \<and> enter f = \<lparr>current_persona = JNull, personas = []\<rparr>"
proof -
  have "\<exists>e. try_load f = Inl e"
    using assms subscript_lacks
    by (fastforce simp: try_load_def split: sum.splits)
  then show ?thesis
    by (auto simp: enter_def registry_value_def no_personas_def json_of_name_def)
qed

theorem enter_recovers_witness:
  "lacks_field (JDict [(''personas'', JDict [])]) ''current_persona''
   \<and> enter (Json (JDict [(''personas'', JDict [])])) = registry_value no_personas
   \<and> lacks_field (JDict [(''current_persona'', JStr ''work'')]) ''personas''
   \<and> enter (Json (JDict [(''current_persona'', JStr ''work'')])) = registry_value no_personas
   \<and> lacks_field (JList []) ''personas''
   \<and> enter (Json (JList [])) = registry_value no_personas
   \<and> enter Missing = registry_value no_personas
   \<and> enter NotJson = registry_value no_personas"
proof -
  have a: "lacks_field (JDict [(''personas'', JDict [])]) ''current_persona''"
    by (simp add: lacks_field_def)
  have b: "lacks_field (JDict [(''current_persona'', JStr ''work'')]) ''personas''"
    by (simp add: lacks_field_def)
  have c: "lacks_field (JList []) ''personas''"
    by (simp add: lacks_field_def)
  show ?thesis
    using a b c
      enter_recovers [of "Json (JDict [(''personas'', JDict [])])"]
      enter_recovers [of "Json (JDict [(''current_persona'', JStr ''work'')])"]
      enter_recovers [of "Json (JList [])"]
      enter_recovers [of Missing]
      enter_recovers [of NotJson]
    by simp
qed

subsection \<open>Saving\<close>

text \<open>
  C2, as stated, fails: \<open>exit\<close> names the first field \<open>current_persona\<close>, not
  \<open>currentPersona\<close>, and \<open>enter\<close> does not read a field \<open>currentPersona\<close>: a
  file that has it, and \<open>personas\<close>, loads as the empty registry.
\<close>

theorem saved_field_names_counterexample:
  "object_keys (asdict no_personas) = [''current_persona'', ''personas'']
   \<and> ''currentPersona'' \<notin> set (object_keys (asdict no_personas))
   \<and> enter (Json (JDict [(''currentPersona'', JStr ''work''), (''personas'', JDict [])]))
       = \<lparr>current_persona = JNull, personas = []\<rparr>"
  by (simp add: asdict_def enter_def try_load_def)

text \<open>
  C2, amended. For every registry in which each record is stored under its own
  name, \<open>exit\<close> writes an object whose fields are \<open>current_persona\<close> and
  \<open>personas\<close>, in this order; under \<open>personas\<close> it has the keys of the
  registry, each with an object whose \<open>persona_name\<close> is that key. \<open>enter\<close>
  reads these two fields and no other: it finds the current name that \<open>exit\<close>
  wrote, and a file gives the same registry as the file with only these two
  fields.
\<close>

theorem saved_field_names:
  assumes "name_is_key c"
  shows "object_keys (asdict c) = [''current_persona'', ''personas'']
    \<and> subscript (asdict c) ''current_persona'' = Inr (json_of_name (current_persona c))
    \<and> (\<exists>entries. subscript (asdict c) ''personas'' = Inr (JDict entries)
          \<and> map fst entries = map fst (personas c)
          \<and> list_all (\<lambda>(k, v). subscript v ''persona_name'' = Inr (JStr k)) entries)
    \<and> current_persona (enter (exit c)) = json_of_name (current_persona c)
    \<and> (subscript j ''current_persona'' = Inr cur \<and> subscript j ''personas'' = Inr ps \<longrightarrow>
          enter (Json j) = enter (Json (JDict [(''current_persona'', cur), (''personas'', ps)])))"
proof -
  let ?entries = "map (\<lambda>(k, p). (k, asdict_persona p)) (personas c)"
  have keys: "map fst ?entries = map fst (personas c)"
    by (simp add: case_prod_unfold comp_def)
  have names: "list_all (\<lambda>(k, v). subscript v ''persona_name'' = Inr (JStr k)) ?entries"
    using assms
    by (auto simp: name_is_key_def list_all_iff asdict_persona_def)
  have vals: "map snd ?entries = map (\<lambda>(k, p). asdict_persona p) (personas c)"
    by (simp add: case_prod_unfold comp_def)
  obtain d' where "load_personas (map snd ?entries) [] = Inr d'"
    using load_personas_saved_ok [of "personas c" "[]"] unfolding vals by blast
  then have cur: "current_persona (enter (exit c)) = json_of_name (current_persona c)"
    by (simp add: enter_def exit_def try_load_def asdict_def)
  have reads: "subscript j ''current_persona'' = Inr cur \<and> subscript j ''personas'' = Inr ps \<longrightarrow>
      enter (Json j) = enter (Json (JDict [(''current_persona'', cur), (''personas'', ps)]))"
    by (simp add: enter_def try_load_def)
  show ?thesis
    using keys names cur reads by (simp add: asdict_def)
qed

theorem saved_field_names_witness:
  "name_is_key work_home
   \<and> object_keys (asdict work_home) = [''current_persona'', ''personas'']
   \<and> subscript (asdict work_home) ''current_persona'' = Inr (JStr ''work'')
   \<and> current_persona (enter (exit work_home)) = JStr ''work''
   \<and> subscript (JDict [(''note'', JNull), (''personas'', JDict []),
                       (''current_persona'', JStr ''home'')]) ''current_persona''
       = Inr (JStr ''home'')
   \<and> subscript (JDict [(''note'', JNull), (''personas'', JDict []),
                       (''current_persona'', JStr ''home'')]) ''personas''
       = Inr (JDict [])
   \<and> enter (Json (JDict [(''note'', JNull), (''personas'', JDict []),
                       (''current_persona'', JStr ''home'')]))
       = enter (Json (JDict [(''current_persona'', JStr ''home''), (''personas'', JDict [])]))"
proof -
  have a: "name_is_key work_home" by (simp add: name_is_key_def work_home_def mk_def)
  have cur: "json_of_name (current_persona work_home) = JStr ''work''"
    by (simp add: json_of_name_def work_home_def)
  show ?thesis
    using a cur
      saved_field_names [OF a, where j = "JDict [(''note'', JNull), (''personas'', JDict []),
                       (''current_persona'', JStr ''home'')]"
        and cur = "JStr ''home''" and ps = "JDict []"]
    by simp
qed

text \<open>
  C3. For every registry whose keys are pairwise different and whose records are
  stored under their own names, loading the file that \<open>exit\<close> wrote gives the
  same personas, in the same order, and the same current name; the empty registry
  is among them. No other registry is represented by the loaded value.
\<close>

theorem save_then_load:
  assumes "dict_keys_ok c" and "name_is_key c"
  shows "enter (exit c) = registry_value c
    \<and> (\<forall>c'. enter (exit c) = registry_value c' \<longrightarrow> c' = c)"
  using enter_exit [OF assms] registry_value_inj by auto

theorem save_then_load_witness:
  "dict_keys_ok work_home \<and> name_is_key work_home
   \<and> enter (exit work_home) = registry_value work_home
   \<and> dict_keys_ok no_personas \<and> name_is_key no_personas
   \<and> enter (exit no_personas) = registry_value no_personas"
proof -
  have a: "dict_keys_ok work_home" by (simp add: dict_keys_ok_def work_home_def)
  have b: "name_is_key work_home" by (simp add: name_is_key_def work_home_def mk_def)
  have c: "dict_keys_ok no_personas" by (simp add: dict_keys_ok_def no_personas_def)
  have d: "name_is_key no_personas" by (simp add: name_is_key_def no_personas_def)
  show ?thesis
    using a b c d save_then_load [OF a b] save_then_load [OF c d] by simp
qed

subsection \<open>The name of a record is its key\<close>

lemma py_update_name_is_key:
  "list_all (\<lambda>(k, p). py_eq k (persona_name p)) d \<Longrightarrow>
   list_all (\<lambda>(k, p). py_eq k (persona_name p)) (py_update (persona_name v) v d)"
  by (induction d) (auto simp: py_eq_refl)

lemma load_personas_name_is_key:
  "load_personas vs d = Inr d' \<Longrightarrow> list_all (\<lambda>(k, p). py_eq k (persona_name p)) d \<Longrightarrow>
   list_all (\<lambda>(k, p). py_eq k (persona_name p)) d'"
proof (induction vs arbitrary: d)
  case Nil
  then show ?case by simp
next
  case (Cons v vs)
  from Cons.prems(1) obtain p where p: "Persona_kwargs v = Inr p"
    by (auto split: sum.splits)
  with Cons.prems(1) have h: "hashable (persona_name p)"
    and rest: "load_personas vs (py_update (persona_name p) p d) = Inr d'"
    by (auto simp: setitem_def split: if_splits)
  from Cons.IH [OF rest] py_update_name_is_key [OF Cons.prems(2)]
  show ?case .
qed

lemma enter_name_is_key: "loaded_name_is_key (enter f)"
proof (cases "try_load f")
  case (Inl e)
  then show ?thesis by (simp add: enter_def loaded_name_is_key_def)
next
  case (Inr c)
  then obtain vs where "load_personas vs [] = Inr (personas c)"
    by (auto simp: try_load_def split: backing_file.splits sum.splits)
  from load_personas_name_is_key [OF this] Inr show ?thesis
    by (simp add: enter_def loaded_name_is_key_def)
qed

lemma registry_value_name_is_key:
  "loaded_name_is_key (registry_value c) \<longleftrightarrow> name_is_key c"
  by (auto simp: loaded_name_is_key_def registry_value_def name_is_key_def list_all_iff
      persona_value_def py_eq_JStr)

lemma update_name_is_key:
  "list_all (\<lambda>(k, p). persona_name p = k) al \<Longrightarrow> persona_name v = n \<Longrightarrow>
   list_all (\<lambda>(k, p). persona_name p = k) (AList.update n v al)"
  by (induction al) auto

lemma delete_name_is_key:
  "list_all (\<lambda>(k, p). persona_name p = k) al \<Longrightarrow>
   list_all (\<lambda>(k, p). persona_name p = k) (AList.delete n al)"
  by (induction al) auto

text \<open>
  C9. Whatever the backing file, each record of the registry that \<open>enter\<close> builds
  is stored under a key equal to its name, so a registry of the annotated types
  that \<open>enter\<close> returns has the invariant; \<open>set_persona\<close>, \<open>rename_persona\<close>
  and \<open>remove_persona\<close> keep it, whether they succeed or raise.
\<close>

theorem name_is_key_preserved:
  "loaded_name_is_key (enter f)
   \<and> (enter f = registry_value c \<longrightarrow> name_is_key c)
   \<and> (name_is_key c \<longrightarrow> name_is_key (set_persona p c))
   \<and> (name_is_key c \<longrightarrow> name_is_key (snd (rename_persona a b c)))
   \<and> (name_is_key c \<longrightarrow> name_is_key (snd (remove_persona n c)))"
proof -
  have "enter f = registry_value c \<Longrightarrow> name_is_key c"
    using enter_name_is_key [of f] by (simp add: registry_value_name_is_key)
  moreover have "name_is_key c \<Longrightarrow> name_is_key (set_persona p c)"
    by (simp add: name_is_key_def set_persona_def update_name_is_key)
  moreover have "name_is_key c \<Longrightarrow> name_is_key (snd (rename_persona a b c))"
    by (simp add: name_is_key_def rename_persona_def update_name_is_key
        delete_name_is_key split: option.splits)
  moreover have "name_is_key c \<Longrightarrow> name_is_key (snd (remove_persona n c))"
    by (simp add: name_is_key_def remove_persona_def delete_name_is_key)
  ultimately show ?thesis
    using enter_name_is_key [of f] by blast
qed

theorem name_is_key_preserved_witness:
  "name_is_key work_home
   \<and> enter (exit work_home) = registry_value work_home
   \<and> loaded_name_is_key (enter (exit work_home))
   \<and> name_is_key (set_persona (mk ''job'') work_home)
   \<and> name_is_key (snd (rename_persona ''work'' ''job'' work_home))
   \<and> name_is_key (snd (remove_persona ''home'' work_home))"
proof -
  have a: "name_is_key work_home" by (simp add: name_is_key_def work_home_def mk_def)
  have b: "enter (exit work_home) = registry_value work_home"
    by (simp add: exit_def asdict_def work_home_def enter_def try_load_def
      asdict_persona_def field_names_def setitem_def py_eq_def registry_value_def
      persona_value_def json_of_name_def mk_def)
  show ?thesis
    using a b
      name_is_key_preserved [where f = "exit work_home" and c = work_home
        and p = "mk ''job''" and a = "''work''" and b = "''job''" and n = "''home''"]
    by simp
qed

end
